theory Spec2Isabelle
  imports Complex_Main "HOL-Library.Multiset"
begin

section \<open>Values, rules and records\<close>

text \<open>
  The rule engine of \<^verbatim>\<open>rules_engine.py\<close> (class \<^verbatim>\<open>MotorInferencia\<close>) works on
  untyped Python values: the operands of the rules come from a JSON file, the fields of an
  alert from a row of a data frame. The values modelled are the two kinds that rules and
  alerts are made of, numbers and strings. A number is modelled by its exact value (Python
  compares an int and a float by value); a string by the list of its UTF-8 bytes (on which
  the bytewise lexicographic order is the order of the code points that Python compares).
  Not-a-number, timestamps, booleans and nested JSON values are not modelled.
\<close>

datatype pyval = Num rat | Str string

text \<open>The two exceptions that the engine lets escape.\<close>

datatype erro = KeyError | TypeError

text \<open>
  A rule is a JSON object, read with \<^verbatim>\<open>json.load\<close> and never validated: the engine
  reads its keys with \<^verbatim>\<open>regra['...']\<close>, which raises \<^verbatim>\<open>KeyError\<close> for a key that is
  absent. Every key is therefore optional in the model (\<open>None\<close>: the key is absent); a key
  that is present holds a value of the expected type.
\<close>

record condicao =
  variavel :: "string option"
  operador :: "string option"
  valor :: "pyval option"

record resultado_json =
  risco :: "string option"
  acao :: "string option"

record regra =
  id_regra :: "string option"
  prioridade :: "int option"
  descricao :: "string option"
  condicoes :: "condicao list option"
  resultado :: "resultado_json option"

text \<open>An alert is a row of the data frame: a mapping from column labels to values.\<close>

type_synonym linha = "string \<rightharpoonup> pyval"

text \<open>The engine object holds the rule list \<^verbatim>\<open>self.regras\<close>.\<close>

record motor =
  regras :: "regra list"

text \<open>
  What the file system holds under the name given to \<^verbatim>\<open>__init__\<close>: nothing
  (\<^verbatim>\<open>FileNotFoundError\<close>), a text that is not JSON (\<^verbatim>\<open>json.JSONDecodeError\<close>), or a JSON
  array of rule objects. Likewise for the data set read by \<^verbatim>\<open>pd.read_csv\<close>: nothing, a
  file whose reading or whose timestamp conversion raises any other exception, or a
  frame, modelled by the list of its rows. (A frame without rows is a special case for
  pandas, which does not call the applied function on it; the statements about the rows of
  a frame below are made for frames with at least one row.)
\<close>

datatype ficheiro_regras = RegrasNaoEncontrado | RegrasJsonInvalido | RegrasJson "regra list"

datatype ficheiro_csv = CsvNaoEncontrado | CsvErroLeitura | CsvTabela "linha list"

section \<open>Python comparisons\<close>

text \<open>Strings are ordered lexicographically, character by character.\<close>

fun str_lt :: "string \<Rightarrow> string \<Rightarrow> bool" where
  "str_lt [] [] = False"
| "str_lt [] (y # ys) = True"
| "str_lt (x # xs) [] = False"
| "str_lt (x # xs) (y # ys) = ((of_char x :: nat) < of_char y \<or> (x = y \<and> str_lt xs ys))"

text \<open>
  \<^verbatim>\<open>a < b\<close>, \<^verbatim>\<open>a > b\<close>, \<^verbatim>\<open>a <= b\<close>, \<^verbatim>\<open>a >= b\<close>: defined between two numbers and
  between two strings; between a string and a number Python raises \<^verbatim>\<open>TypeError\<close>.
  \<^verbatim>\<open>a == b\<close> and \<^verbatim>\<open>a != b\<close> never raise: values of different kinds are unequal.
\<close>

fun py_lt :: "pyval \<Rightarrow> pyval \<Rightarrow> erro + bool" where
  "py_lt (Num a) (Num b) = Inr (a < b)"
| "py_lt (Str s) (Str t) = Inr (str_lt s t)"
| "py_lt (Num a) (Str t) = Inl TypeError"
| "py_lt (Str s) (Num b) = Inl TypeError"

fun py_gt :: "pyval \<Rightarrow> pyval \<Rightarrow> erro + bool" where
  "py_gt (Num a) (Num b) = Inr (a > b)"
| "py_gt (Str s) (Str t) = Inr (str_lt t s)"
| "py_gt (Num a) (Str t) = Inl TypeError"
| "py_gt (Str s) (Num b) = Inl TypeError"

fun py_le :: "pyval \<Rightarrow> pyval \<Rightarrow> erro + bool" where
  "py_le (Num a) (Num b) = Inr (a \<le> b)"
| "py_le (Str s) (Str t) = Inr (\<not> str_lt t s)"
| "py_le (Num a) (Str t) = Inl TypeError"
| "py_le (Str s) (Num b) = Inl TypeError"

fun py_ge :: "pyval \<Rightarrow> pyval \<Rightarrow> erro + bool" where
  "py_ge (Num a) (Num b) = Inr (a \<ge> b)"
| "py_ge (Str s) (Str t) = Inr (\<not> str_lt s t)"
| "py_ge (Num a) (Str t) = Inl TypeError"
| "py_ge (Str s) (Num b) = Inl TypeError"

definition py_eq :: "pyval \<Rightarrow> pyval \<Rightarrow> bool" where
  "py_eq a b = (a = b)"

definition py_ne :: "pyval \<Rightarrow> pyval \<Rightarrow> bool" where
  "py_ne a b = (a \<noteq> b)"

section \<open>Loading the rules\<close>

text \<open>
  \<^verbatim>\<open>self.regras.sort(key=lambda r: r['prioridade'])\<close>: Python computes the key of every
  element first, so a rule without the key \<^verbatim>\<open>prioridade\<close> raises \<^verbatim>\<open>KeyError\<close>;
  otherwise the list is sorted by the keys, ascending, and \<^verbatim>\<open>list.sort\<close> is stable.
  The result of a stable sort is determined by the list and the keys, so the
  insertion sort \<^const>\<open>sort_key\<close> stands for it.
\<close>

definition chave :: "regra \<Rightarrow> int" where
  "chave r = the (prioridade r)"

definition sort_prioridade :: "regra list \<Rightarrow> erro + regra list" where
  "sort_prioridade rs =
     (if list_all (\<lambda>r. prioridade r \<noteq> None) rs then Inr (sort_key chave rs)
      else Inl KeyError)"

text \<open>
  \<^verbatim>\<open>MotorInferencia.__init__\<close>. Both handled exceptions print a message and leave an
  engine with no rules; the \<^verbatim>\<open>KeyError\<close> of the sort is not handled and the construction
  fails with it. (The messages printed are not modelled.)
\<close>

fun init_motor :: "ficheiro_regras \<Rightarrow> erro + motor" where
  "init_motor RegrasNaoEncontrado = Inr \<lparr>regras = []\<rparr>"
| "init_motor RegrasJsonInvalido = Inr \<lparr>regras = []\<rparr>"
| "init_motor (RegrasJson rs) =
     (case sort_prioridade rs of
        Inl e \<Rightarrow> Inl e
      | Inr ordenadas \<Rightarrow> Inr \<lparr>regras = ordenadas\<rparr>)"

section \<open>Evaluating an alert\<close>

text \<open>\<^verbatim>\<open>MotorInferencia._verificar_condicao\<close>: a chain of six tests on the operator.\<close>

definition verificar_condicao :: "pyval \<Rightarrow> string \<Rightarrow> pyval \<Rightarrow> erro + bool" where
  "verificar_condicao alerta_valor op regra_valor =
     (if op = ''>'' then py_gt alerta_valor regra_valor
      else if op = ''<'' then py_lt alerta_valor regra_valor
      else if op = ''=='' then Inr (py_eq alerta_valor regra_valor)
      else if op = ''!='' then Inr (py_ne alerta_valor regra_valor)
      else if op = ''>='' then py_ge alerta_valor regra_valor
      else if op = ''<='' then py_le alerta_valor regra_valor
      else Inr False)"

text \<open>
  The body of the inner loop of \<^verbatim>\<open>avaliar_alerta\<close>, for one condition: the name of the
  field is read, then looked up in the row (absent: the condition fails), and only then
  are the operator and the operand read and compared.
\<close>

definition avaliar_condicao :: "condicao \<Rightarrow> linha \<Rightarrow> erro + bool" where
  "avaliar_condicao c alerta_row =
     (case variavel c of
        None \<Rightarrow> Inl KeyError
      | Some v \<Rightarrow>
          (case alerta_row v of
             None \<Rightarrow> Inr False
           | Some alerta_valor \<Rightarrow>
               (case operador c of
                  None \<Rightarrow> Inl KeyError
                | Some op \<Rightarrow>
                    (case valor c of
                       None \<Rightarrow> Inl KeyError
                     | Some regra_valor \<Rightarrow> verificar_condicao alerta_valor op regra_valor))))"

text \<open>
  The inner loop: \<open>Inr True\<close> is \<^verbatim>\<open>condicoes_cumpridas\<close> still true at the end of the
  loop, \<open>Inr False\<close> is the \<^verbatim>\<open>break\<close>.
\<close>

fun verificar_condicoes :: "condicao list \<Rightarrow> linha \<Rightarrow> erro + bool" where
  "verificar_condicoes [] alerta_row = Inr True"
| "verificar_condicoes (c # cs) alerta_row =
     (case avaliar_condicao c alerta_row of
        Inl e \<Rightarrow> Inl e
      | Inr ok \<Rightarrow> if ok then verificar_condicoes cs alerta_row else Inr False)"

text \<open>One pass of the outer loop up to the test of \<^verbatim>\<open>condicoes_cumpridas\<close>.\<close>

definition verificar_regra :: "regra \<Rightarrow> linha \<Rightarrow> erro + bool" where
  "verificar_regra r alerta_row =
     (case condicoes r of
        None \<Rightarrow> Inl KeyError
      | Some cs \<Rightarrow> verificar_condicoes cs alerta_row)"

text \<open>
  The tuple returned for a rule that matched:
  \<^verbatim>\<open>regra['resultado']['risco'], regra['resultado']['acao'], regra['id']\<close>.
\<close>

definition resultado_da_regra :: "regra \<Rightarrow> erro + (string \<times> string \<times> string)" where
  "resultado_da_regra r =
     (case resultado r of
        None \<Rightarrow> Inl KeyError
      | Some res \<Rightarrow>
          (case risco res of
             None \<Rightarrow> Inl KeyError
           | Some ri \<Rightarrow>
               (case acao res of
                  None \<Rightarrow> Inl KeyError
                | Some ac \<Rightarrow>
                    (case id_regra r of
                       None \<Rightarrow> Inl KeyError
                     | Some i \<Rightarrow> Inr (ri, ac, i)))))"

text \<open>
  The tuple returned when the loop ends:
  \<^verbatim>\<open>'NORMAL', 'Monitorizacao de rotina.', 'SEM_REGRA'\<close>, where the source spells the
  action with a c-cedilla and an a-tilde (two bytes each in UTF-8).
\<close>

definition acao_rotina :: string where
  "acao_rotina = ''Monitoriza'' @ [CHR 0xC3, CHR 0xA7, CHR 0xC3, CHR 0xA3] @ ''o de rotina.''"

definition sem_regra :: "string \<times> string \<times> string" where
  "sem_regra = (''NORMAL'', acao_rotina, ''SEM_REGRA'')"

text \<open>The outer loop of \<^verbatim>\<open>avaliar_alerta\<close> over \<^verbatim>\<open>self.regras\<close>.\<close>

fun percorrer_regras :: "regra list \<Rightarrow> linha \<Rightarrow> erro + (string \<times> string \<times> string)" where
  "percorrer_regras [] alerta_row = Inr sem_regra"
| "percorrer_regras (r # rs) alerta_row =
     (case verificar_regra r alerta_row of
        Inl e \<Rightarrow> Inl e
      | Inr ok \<Rightarrow> if ok then resultado_da_regra r else percorrer_regras rs alerta_row)"

definition avaliar_alerta :: "motor \<Rightarrow> linha \<Rightarrow> erro + (string \<times> string \<times> string)" where
  "avaliar_alerta self alerta_row = percorrer_regras (regras self) alerta_row"

section \<open>Processing a data set\<close>

text \<open>
  \<^verbatim>\<open>df.apply(lambda row: self.avaliar_alerta(row), axis=1, result_type='expand')\<close>: the
  function is called on the rows in order, and an exception raised for a row ends the call.
\<close>

fun aplicar :: "motor \<Rightarrow> linha list \<Rightarrow> erro + (string \<times> string \<times> string) list" where
  "aplicar self [] = Inr []"
| "aplicar self (row # rows) =
     (case avaliar_alerta self row of
        Inl e \<Rightarrow> Inl e
      | Inr res \<Rightarrow>
          (case aplicar self rows of
             Inl e \<Rightarrow> Inl e
           | Inr resto \<Rightarrow> Inr (res # resto)))"

text \<open>
  \<^verbatim>\<open>MotorInferencia.processar_dataset\<close>. \<open>Inr None\<close> is the Python \<^verbatim>\<open>None\<close>;
  the frame returned, \<^verbatim>\<open>pd.concat([df, resultados], axis=1)\<close>, pairs every row with the
  three columns computed for it.
\<close>

definition processar_dataset ::
  "motor \<Rightarrow> ficheiro_csv \<Rightarrow> erro + (linha \<times> (string \<times> string \<times> string)) list option" where
  "processar_dataset self ficheiro =
     (if regras self = [] then Inr None
      else
        (case ficheiro of
           CsvNaoEncontrado \<Rightarrow> Inr None
         | CsvErroLeitura \<Rightarrow> Inr None
         | CsvTabela df \<Rightarrow>
             (case aplicar self df of
                Inl e \<Rightarrow> Inl e
              | Inr resultados \<Rightarrow> Inr (Some (zip df resultados)))))"

section \<open>Rules with all their keys, comparisons of one kind\<close>

text \<open>
  Two predicates used to state when the evaluation of an alert cannot raise: every key
  that the engine reads is present, and every ordering comparison that can be reached is
  between a field of the alert and an operand of the same kind.
\<close>

fun numerico :: "pyval \<Rightarrow> bool" where
  "numerico (Num a) = True"
| "numerico (Str s) = False"

definition condicao_completa :: "condicao \<Rightarrow> bool" where
  "condicao_completa c = (variavel c \<noteq> None \<and> operador c \<noteq> None \<and> valor c \<noteq> None)"

definition regra_completa :: "regra \<Rightarrow> bool" where
  "regra_completa r =
     (id_regra r \<noteq> None \<and>
      (case condicoes r of None \<Rightarrow> False | Some cs \<Rightarrow> list_all condicao_completa cs) \<and>
      (case resultado r of None \<Rightarrow> False | Some res \<Rightarrow> risco res \<noteq> None \<and> acao res \<noteq> None))"

definition comparacao_bem_tipada :: "condicao \<Rightarrow> linha \<Rightarrow> bool" where
  "comparacao_bem_tipada c alerta_row =
     (case variavel c of
        None \<Rightarrow> True
      | Some v \<Rightarrow>
          (case alerta_row v of
             None \<Rightarrow> True
           | Some a \<Rightarrow>
               (case operador c of
                  None \<Rightarrow> True
                | Some op \<Rightarrow>
                    (case valor c of
                       None \<Rightarrow> True
                     | Some b \<Rightarrow>
                         op \<in> {''>'', ''<'', ''>='', ''<=''} \<longrightarrow> numerico a = numerico b))))"

definition regra_bem_tipada :: "regra \<Rightarrow> linha \<Rightarrow> bool" where
  "regra_bem_tipada r alerta_row =
     (case condicoes r of
        None \<Rightarrow> True
      | Some cs \<Rightarrow> list_all (\<lambda>c. comparacao_bem_tipada c alerta_row) cs)"

section \<open>The example rule base and example alerts\<close>

text \<open>
  Inputs on which the statements below are evaluated: four of the rules that the program
  writes to \<^verbatim>\<open>regras.json\<close> when the file does not exist (the accented letters of
  the source as UTF-8 bytes), rules with a defect, and alerts.
\<close>

definition regra_critica_01 :: regra where
  "regra_critica_01 =
     \<lparr>id_regra = Some ''REGRA_CRITICA_01'', prioridade = Some 1,
      descricao = Some ''Temp > 40 E Hum < 20'',
      condicoes = Some
        [\<lparr>variavel = Some ''temp'', operador = Some ''>'', valor = Some (Num 40)\<rparr>,
         \<lparr>variavel = Some ''hum'', operador = Some ''<'', valor = Some (Num 20)\<rparr>],
      resultado = Some
        \<lparr>risco = Some (''CR'' @ [CHR 0xC3, CHR 0x8D] @ ''TICO''),
         acao = Some (''Mobiliza'' @ [CHR 0xC3, CHR 0xA7, CHR 0xC3, CHR 0xA3] @ ''o imediata.'')\<rparr>\<rparr>"

definition regra_alta_01 :: regra where
  "regra_alta_01 =
     \<lparr>id_regra = Some ''REGRA_ALTA_01'', prioridade = Some 2,
      descricao = Some (''Evento '' @ [CHR 0x27] @ ''raio_seco'' @ [CHR 0x27]),
      condicoes = Some
        [\<lparr>variavel = Some ''event_type'', operador = Some ''=='',
          valor = Some (Str ''raio_seco'')\<rparr>],
      resultado = Some
        \<lparr>risco = Some ''ALTO'',
         acao = Some (''Enviar vigil'' @ [CHR 0xC3, CHR 0xA2] @ ''ncia.'')\<rparr>\<rparr>"

definition regra_alta_02 :: regra where
  "regra_alta_02 =
     \<lparr>id_regra = Some ''REGRA_ALTA_02'', prioridade = Some 2,
      descricao = Some ''Temp > 38 E Hum < 30'',
      condicoes = Some
        [\<lparr>variavel = Some ''temp'', operador = Some ''>'', valor = Some (Num 38)\<rparr>,
         \<lparr>variavel = Some ''hum'', operador = Some ''<'', valor = Some (Num 30)\<rparr>],
      resultado = Some
        \<lparr>risco = Some ''ALTO'',
         acao = Some (''Refor'' @ [CHR 0xC3, CHR 0xA7] @ ''ar vigil'' @ [CHR 0xC3, CHR 0xA2] @ ''ncia.'')\<rparr>\<rparr>"

definition regra_baixa_01 :: regra where
  "regra_baixa_01 =
     \<lparr>id_regra = Some ''REGRA_BAIXA_01'', prioridade = Some 4,
      descricao = Some ''Vento > 40'',
      condicoes = Some
        [\<lparr>variavel = Some ''wind'', operador = Some ''>'', valor = Some (Num 40)\<rparr>],
      resultado = Some \<lparr>risco = Some ''BAIXO'', acao = Some ''Monitorizar.''\<rparr>\<rparr>"

definition motor_exemplo :: motor where
  "motor_exemplo = \<lparr>regras = [regra_critica_01, regra_alta_01, regra_alta_02, regra_baixa_01]\<rparr>"

definition alerta_raio :: linha where
  "alerta_raio =
     [''zone'' \<mapsto> Str ''Sintra'', ''temp'' \<mapsto> Num 20, ''hum'' \<mapsto> Num 50,
      ''wind'' \<mapsto> Num 10, ''event_type'' \<mapsto> Str ''raio_seco'']"

definition alerta_normal :: linha where
  "alerta_normal =
     [''zone'' \<mapsto> Str ''Sintra'', ''temp'' \<mapsto> Num 20, ''hum'' \<mapsto> Num 50,
      ''wind'' \<mapsto> Num 10, ''event_type'' \<mapsto> Str ''nenhum'']"

definition alerta_quente :: linha where
  "alerta_quente =
     [''zone'' \<mapsto> Str ''Monchique'', ''temp'' \<mapsto> Num 42, ''hum'' \<mapsto> Num 18,
      ''wind'' \<mapsto> Num 45, ''event_type'' \<mapsto> Str ''nenhum'']"

definition regras_json_exemplo :: "regra list" where
  "regras_json_exemplo = [regra_baixa_01, regra_alta_01, regra_critica_01, regra_alta_02]"

definition alerta_varias :: linha where
  "alerta_varias =
     [''zone'' \<mapsto> Str ''Sintra'', ''temp'' \<mapsto> Num 39, ''hum'' \<mapsto> Num 25,
      ''wind'' \<mapsto> Num 45, ''event_type'' \<mapsto> Str ''raio_seco'']"

definition alerta_sem_hum :: linha where
  "alerta_sem_hum =
     [''zone'' \<mapsto> Str ''Monchique'', ''temp'' \<mapsto> Num 42, ''wind'' \<mapsto> Num 45,
      ''event_type'' \<mapsto> Str ''nenhum'']"

definition regra_sempre :: regra where
  "regra_sempre =
     \<lparr>id_regra = Some ''REGRA_SEMPRE'', prioridade = Some 9,
      descricao = Some ''Sem condicoes'',
      condicoes = Some [],
      resultado = Some \<lparr>risco = Some ''BAIXO'', acao = Some ''Monitorizar.''\<rparr>\<rparr>"

definition regra_evento_maior :: regra where
  "regra_evento_maior =
     \<lparr>id_regra = Some ''REGRA_EVENTO'', prioridade = Some 5,
      descricao = Some ''Evento > 40'',
      condicoes = Some
        [\<lparr>variavel = Some ''event_type'', operador = Some ''>'', valor = Some (Num 40)\<rparr>],
      resultado = Some \<lparr>risco = Some ''BAIXO'', acao = Some ''Monitorizar.''\<rparr>\<rparr>"

definition regra_operador_desconhecido :: regra where
  "regra_operador_desconhecido =
     \<lparr>id_regra = Some ''REGRA_OP'', prioridade = Some 1,
      descricao = Some ''Temp ~= 40'',
      condicoes = Some
        [\<lparr>variavel = Some ''temp'', operador = Some ''~='', valor = Some (Num 40)\<rparr>],
      resultado = Some \<lparr>risco = Some ''ALTO'', acao = Some ''Monitorizar.''\<rparr>\<rparr>"

definition regra_sem_operador :: regra where
  "regra_sem_operador =
     \<lparr>id_regra = None, prioridade = Some 2,
      descricao = None,
      condicoes = Some
        [\<lparr>variavel = Some ''temp'', operador = None, valor = Some (Num 40)\<rparr>],
      resultado = None\<rparr>"

definition regra_sem_prioridade :: regra where
  "regra_sem_prioridade =
     \<lparr>id_regra = Some ''REGRA_SEM_PRIORIDADE'', prioridade = None,
      descricao = Some ''Vento > 40'',
      condicoes = Some
        [\<lparr>variavel = Some ''wind'', operador = Some ''>'', valor = Some (Num 40)\<rparr>],
      resultado = Some \<lparr>risco = Some ''BAIXO'', acao = Some ''Monitorizar.''\<rparr>\<rparr>"

section \<open>Lemmas about the two loops and the sort\<close>

lemmas exemplos =
  regra_critica_01_def regra_alta_01_def regra_alta_02_def regra_baixa_01_def motor_exemplo_def
  alerta_raio_def alerta_normal_def alerta_quente_def regras_json_exemplo_def alerta_varias_def
  alerta_sem_hum_def regra_sempre_def regra_evento_maior_def regra_operador_desconhecido_def
  regra_sem_operador_def regra_sem_prioridade_def

lemmas motor_defs =
  avaliar_alerta_def verificar_regra_def avaliar_condicao_def verificar_condicao_def
  resultado_da_regra_def py_eq_def py_ne_def sem_regra_def

lemma percorrer_regras_salta:
  "\<forall>a\<in>set antes. verificar_regra a row = Inr False \<Longrightarrow>
   percorrer_regras (antes @ rs) row = percorrer_regras rs row"
  by (induction antes) simp_all

lemma verificar_condicoes_todas:
  "verificar_condicoes cs row = Inr True \<longleftrightarrow> (\<forall>c\<in>set cs. avaliar_condicao c row = Inr True)"
  by (induction cs) (auto split: sum.splits)

lemma verificar_condicoes_prefixo:
  "verificar_condicoes cs1 row = Inr True \<Longrightarrow>
   verificar_condicoes (cs1 @ cs2) row = verificar_condicoes cs2 row"
  by (induction cs1) (auto split: sum.splits if_splits)

lemma verificar_condicoes_prefixo_falha:
  "verificar_condicoes cs1 row = Inr False \<Longrightarrow> verificar_condicoes (cs1 @ cs2) row = Inr False"
  by (induction cs1) (auto split: sum.splits if_splits)


lemma insort_key_frente:
  "\<exists>pre pos. insort_key f x ys = pre @ x # pos \<and> (\<forall>p\<in>set pre. p \<in> set ys \<and> f p < f x)"
proof (induction ys)
  case Nil
  have "insort_key f x [] = [] @ x # [] \<and> (\<forall>p\<in>set []. p \<in> set [] \<and> f p < f x)" by simp
  then show ?case by (intro exI)
next
  case (Cons y ys)
  show ?case
  proof (cases "f x \<le> f y")
    case True
    then have "insort_key f x (y # ys) = [] @ x # (y # ys) \<and>
        (\<forall>p\<in>set []. p \<in> set (y # ys) \<and> f p < f x)" by simp
    then show ?thesis by (intro exI)
  next
    case False
    from Cons obtain pre pos where
      e: "insort_key f x ys = pre @ x # pos" and p: "\<forall>p\<in>set pre. p \<in> set ys \<and> f p < f x"
      by blast
    from False e have "insort_key f x (y # ys) = (y # pre) @ x # pos" by simp
    moreover from False p have "\<forall>p\<in>set (y # pre). p \<in> set (y # ys) \<and> f p < f x" by auto
    ultimately have "insort_key f x (y # ys) = (y # pre) @ x # pos \<and>
        (\<forall>p\<in>set (y # pre). p \<in> set (y # ys) \<and> f p < f x)" by (rule conjI)
    then show ?thesis by (intro exI)
  qed
qed

lemma insort_key_antes:
  "f a \<le> f x \<Longrightarrow> insort_key f a (pre @ x # pos) = insort_key f a pre @ x # pos"
  by (induction pre) simp_all

lemma insort_key_depois:
  "f x < f a \<Longrightarrow> \<forall>p\<in>set pre. f p < f a \<Longrightarrow>
   insort_key f a (pre @ x # pos) = pre @ x # insort_key f a pos"
  by (induction pre) auto

lemma sort_key_frente:
  fixes f :: "'a \<Rightarrow> int"
  assumes "\<forall>a\<in>set as. f a \<le> f x \<longrightarrow> P a" and "\<forall>b\<in>set bs. f b < f x \<longrightarrow> P b"
  shows "\<exists>pre pos. sort_key f (as @ x # bs) = pre @ x # pos \<and> (\<forall>p\<in>set pre. P p)"
  using assms
proof (induction as)
  case Nil
  obtain pre pos where
    e: "insort_key f x (sort_key f bs) = pre @ x # pos"
    and p: "\<forall>p\<in>set pre. p \<in> set (sort_key f bs) \<and> f p < f x"
    using insort_key_frente [of f x "sort_key f bs"] by (elim exE conjE)
  from p Nil.prems(2) have q: "\<forall>p\<in>set pre. P p" by simp
  have "sort_key f ([] @ x # bs) = insort_key f x (sort_key f bs)" by simp
  then have "sort_key f ([] @ x # bs) = pre @ x # pos" using e by (rule trans)
  with q have "sort_key f ([] @ x # bs) = pre @ x # pos \<and> (\<forall>p\<in>set pre. P p)" by (rule conjI [rotated])
  then show ?case by (intro exI)
next
  case (Cons a as)
  from Cons.prems have "\<forall>a\<in>set as. f a \<le> f x \<longrightarrow> P a" by simp
  from Cons.IH [OF this Cons.prems(2)] obtain pre pos where
    e: "sort_key f (as @ x # bs) = pre @ x # pos" and p: "\<forall>p\<in>set pre. P p"
    by (elim exE conjE)
  have "sorted (map f (sort_key f (as @ x # bs)))" by (rule sorted_sort_key)
  then have s: "sorted (map f (pre @ x # pos))" by (simp only: e)
  have "sort_key f ((a # as) @ x # bs) = insort_key f a (sort_key f (as @ x # bs))"
    by (simp only: append_Cons sort_key_simps)
  then have u: "sort_key f ((a # as) @ x # bs) = insort_key f a (pre @ x # pos)"
    by (simp only: e)
  show ?case
  proof (cases "f a \<le> f x")
    case True
    with Cons.prems(1) have "P a" by simp
    from u have v: "sort_key f ((a # as) @ x # bs) = insort_key f a pre @ x # pos"
      by (simp only: insort_key_antes [of f a x pre pos, OF True])
    from p \<open>P a\<close> have "\<forall>q\<in>set (insort_key f a pre). P q"
      by (simp add: set_insort_key)
    with v have "sort_key f ((a # as) @ x # bs) = insort_key f a pre @ x # pos \<and>
      (\<forall>q\<in>set (insort_key f a pre). P q)" by (rule conjI)
    then show ?thesis by (intro exI)
  next
    case False
    from s have "\<forall>q\<in>set pre. f q \<le> f x" by (simp add: sorted_append)
    with False have l: "\<forall>q\<in>set pre. f q < f a" by auto
    from False have "f x < f a" by simp
    from u have v: "sort_key f ((a # as) @ x # bs) = pre @ x # insort_key f a pos"
      by (simp only: insort_key_depois [of f x a pre pos, OF \<open>f x < f a\<close> l])
    with p have "sort_key f ((a # as) @ x # bs) = pre @ x # insort_key f a pos \<and>
      (\<forall>q\<in>set pre. P q)" by (rule conjI [rotated])
    then show ?thesis by (intro exI)
  qed
qed

lemma resultado_da_regra_completo:
  "resultado r = Some res \<Longrightarrow> risco res = Some ri \<Longrightarrow> acao res = Some ac \<Longrightarrow>
   id_regra r = Some i \<Longrightarrow> resultado_da_regra r = Inr (ri, ac, i)"
  by (simp add: resultado_da_regra_def)

lemma percorrer_regras_primeira:
  assumes "\<forall>a\<in>set antes. verificar_regra a row = Inr False"
    and "verificar_regra r row = Inr True"
  shows "percorrer_regras (antes @ r # depois) row = resultado_da_regra r"
proof -
  from assms(1) have "percorrer_regras (antes @ r # depois) row = percorrer_regras (r # depois) row"
    by (rule percorrer_regras_salta)
  with assms(2) show ?thesis by simp
qed

lemma verificar_condicoes_primeira_falha:
  assumes "verificar_condicoes cs1 row = Inr True" and "avaliar_condicao c row = Inr False"
  shows "verificar_condicoes (cs1 @ c # cs2) row = Inr False"
proof -
  from assms(1) have "verificar_condicoes (cs1 @ c # cs2) row = verificar_condicoes (c # cs2) row"
    by (rule verificar_condicoes_prefixo)
  with assms(2) show ?thesis by simp
qed

lemma verificar_regra_cumprida_iff:
  "verificar_regra r row = Inr True \<longleftrightarrow>
   (\<exists>cs. condicoes r = Some cs \<and> (\<forall>c\<in>set cs. avaliar_condicao c row = Inr True))"
  by (cases "condicoes r") (simp_all add: verificar_regra_def verificar_condicoes_todas)

lemma percorrer_regras_Inr:
  "percorrer_regras rs row = Inr t \<Longrightarrow>
   (t = sem_regra \<and> (\<forall>r\<in>set rs. verificar_regra r row = Inr False)) \<or>
   (\<exists>antes r depois. rs = antes @ r # depois \<and>
      (\<forall>a\<in>set antes. verificar_regra a row = Inr False) \<and>
      verificar_regra r row = Inr True \<and> resultado_da_regra r = Inr t)"
proof (induction rs)
  case Nil
  then show ?case by simp
next
  case (Cons x xs)
  show ?case
  proof (cases "verificar_regra x row")
    case (Inl e)
    with Cons.prems show ?thesis by simp
  next
    case (Inr ok)
    show ?thesis
    proof (cases ok)
      case True
      with Inr Cons.prems have "x # xs = [] @ x # xs \<and>
        (\<forall>a\<in>set []. verificar_regra a row = Inr False) \<and>
        verificar_regra x row = Inr True \<and> resultado_da_regra x = Inr t"
        by simp
      then show ?thesis by blast
    next
      case False
      with Inr Cons.prems have "percorrer_regras xs row = Inr t" by simp
      from Cons.IH [OF this] show ?thesis
      proof
        assume "t = sem_regra \<and> (\<forall>r\<in>set xs. verificar_regra r row = Inr False)"
        with Inr False show ?thesis by simp
      next
        assume "\<exists>antes r depois. xs = antes @ r # depois \<and>
          (\<forall>a\<in>set antes. verificar_regra a row = Inr False) \<and>
          verificar_regra r row = Inr True \<and> resultado_da_regra r = Inr t"
        then obtain antes r depois where h: "xs = antes @ r # depois"
          "\<forall>a\<in>set antes. verificar_regra a row = Inr False"
          "verificar_regra r row = Inr True" "resultado_da_regra r = Inr t"
          by blast
        with Inr False have "x # xs = (x # antes) @ r # depois \<and>
          (\<forall>a\<in>set (x # antes). verificar_regra a row = Inr False) \<and>
          verificar_regra r row = Inr True \<and> resultado_da_regra r = Inr t"
          by simp
        then show ?thesis by blast
      qed
    qed
  qed
qed

section \<open>The claims\<close>

subsection \<open>The first rule whose conditions hold\<close>

text \<open>
  Claim C1. The outcome of checking a rule on an alert is one of three: its conditions all
  hold (\<open>Inr True\<close>), one of them fails (\<open>Inr False\<close>), or the check raises. When
  the rules before a rule all fail and the conditions of that rule all hold, the tuple
  returned is the risk, the action and the identifier of that rule, whatever rules come
  after it. The conditions of a rule all hold exactly when each of them holds, and the
  check of a rule stops at the first condition that fails: the conditions after it have no
  influence, even one that would raise. Conversely, a tuple that is returned is either the
  default one, every rule having failed, or that of a rule whose conditions all hold and
  before which every rule fails.
\<close>

theorem avaliar_alerta_primeira_regra_cumprida:
  "(regras self = antes @ r # depois \<and>
    (\<forall>a\<in>set antes. verificar_regra a row = Inr False) \<and>
    verificar_regra r row = Inr True \<and>
    resultado r = Some res \<and> risco res = Some ri \<and> acao res = Some ac \<and> id_regra r = Some i
    \<longrightarrow> avaliar_alerta self row = Inr (ri, ac, i)) \<and>
   (verificar_regra r row = Inr True \<longleftrightarrow>
     (\<exists>cs. condicoes r = Some cs \<and> (\<forall>c\<in>set cs. avaliar_condicao c row = Inr True))) \<and>
   (verificar_condicoes cs1 row = Inr True \<and> avaliar_condicao c row = Inr False
    \<longrightarrow> verificar_condicoes (cs1 @ c # cs2) row = Inr False) \<and>
   (avaliar_alerta self row = Inr t
    \<longrightarrow> (t = (''NORMAL'', acao_rotina, ''SEM_REGRA'') \<and>
         (\<forall>x\<in>set (regras self). verificar_regra x row = Inr False)) \<or>
        (\<exists>xs x ys. regras self = xs @ x # ys \<and>
           (\<forall>a\<in>set xs. verificar_regra a row = Inr False) \<and>
           verificar_regra x row = Inr True \<and> resultado_da_regra x = Inr t))"
proof (intro conjI impI)
  assume h: "regras self = antes @ r # depois \<and>
    (\<forall>a\<in>set antes. verificar_regra a row = Inr False) \<and>
    verificar_regra r row = Inr True \<and>
    resultado r = Some res \<and> risco res = Some ri \<and> acao res = Some ac \<and> id_regra r = Some i"
  then have a: "\<forall>a\<in>set antes. verificar_regra a row = Inr False"
    and b: "verificar_regra r row = Inr True"
    and c: "regras self = antes @ r # depois"
    and d: "resultado r = Some res" "risco res = Some ri" "acao res = Some ac" "id_regra r = Some i"
    by blast+
  from a b have "percorrer_regras (antes @ r # depois) row = resultado_da_regra r"
    by (rule percorrer_regras_primeira)
  moreover from d have "resultado_da_regra r = Inr (ri, ac, i)"
    by (rule resultado_da_regra_completo)
  ultimately show "avaliar_alerta self row = Inr (ri, ac, i)"
    using c by (simp add: avaliar_alerta_def)
next
  show "verificar_regra r row = Inr True \<longleftrightarrow>
     (\<exists>cs. condicoes r = Some cs \<and> (\<forall>c\<in>set cs. avaliar_condicao c row = Inr True))"
    by (rule verificar_regra_cumprida_iff)
next
  assume "verificar_condicoes cs1 row = Inr True \<and> avaliar_condicao c row = Inr False"
  then show "verificar_condicoes (cs1 @ c # cs2) row = Inr False"
    by (intro verificar_condicoes_primeira_falha) simp_all
next
  assume "avaliar_alerta self row = Inr t"
  then have "percorrer_regras (regras self) row = Inr t"
    by (simp only: avaliar_alerta_def)
  from percorrer_regras_Inr [OF this]
  show "(t = (''NORMAL'', acao_rotina, ''SEM_REGRA'') \<and>
         (\<forall>x\<in>set (regras self). verificar_regra x row = Inr False)) \<or>
        (\<exists>xs x ys. regras self = xs @ x # ys \<and>
           (\<forall>a\<in>set xs. verificar_regra a row = Inr False) \<and>
           verificar_regra x row = Inr True \<and> resultado_da_regra x = Inr t)"
    by (simp only: sem_regra_def)
qed

theorem avaliar_alerta_primeira_regra_cumprida_witness:
  "avaliar_alerta motor_exemplo alerta_raio =
     Inr (''ALTO'', ''Enviar vigil'' @ [CHR 0xC3, CHR 0xA2] @ ''ncia.'', ''REGRA_ALTA_01'') \<and>
   verificar_regra regra_critica_01 alerta_raio = Inr False \<and>
   verificar_regra regra_alta_01 alerta_raio = Inr True \<and>
   verificar_condicoes
     ([] @ \<lparr>variavel = Some ''temp'', operador = Some ''>'', valor = Some (Num 40)\<rparr> #
       [\<lparr>variavel = Some ''hum'', operador = Some ''<'', valor = Some (Str ''seco'')\<rparr>])
     alerta_raio = Inr False"
  using avaliar_alerta_primeira_regra_cumprida
    [of motor_exemplo "[regra_critica_01]" regra_alta_01 "[regra_alta_02, regra_baixa_01]"
      alerta_raio
      "\<lparr>risco = Some ''ALTO'', acao = Some (''Enviar vigil'' @ [CHR 0xC3, CHR 0xA2] @ ''ncia.'')\<rparr>"
      "''ALTO''" "''Enviar vigil'' @ [CHR 0xC3, CHR 0xA2] @ ''ncia.''" "''REGRA_ALTA_01''"
      "[]" "\<lparr>variavel = Some ''temp'', operador = Some ''>'', valor = Some (Num 40)\<rparr>"
      "[\<lparr>variavel = Some ''hum'', operador = Some ''<'', valor = Some (Str ''seco'')\<rparr>]"
      "(''ALTO'', ''Enviar vigil'' @ [CHR 0xC3, CHR 0xA2] @ ''ncia.'', ''REGRA_ALTA_01'')"]
  by (simp add: exemplos motor_defs)

subsection \<open>The order of the rules\<close>

lemma sort_prioridade_Inr:
  "sort_prioridade rs = Inr ys \<longleftrightarrow>
   list_all (\<lambda>r. prioridade r \<noteq> None) rs \<and> ys = sort_key chave rs"
  by (auto simp: sort_prioridade_def)

lemma init_motor_Inr:
  "init_motor (RegrasJson rs) = Inr self \<longleftrightarrow>
   list_all (\<lambda>r. prioridade r \<noteq> None) rs \<and> self = \<lparr>regras = sort_key chave rs\<rparr>"
  by (auto simp: sort_prioridade_def)

lemma percorrer_regras_ordenadas:
  assumes "verificar_regra r row = Inr True"
    and "\<forall>a\<in>set as. chave a \<le> chave r \<longrightarrow> verificar_regra a row = Inr False"
    and "\<forall>b\<in>set bs. chave b < chave r \<longrightarrow> verificar_regra b row = Inr False"
  shows "percorrer_regras (sort_key chave (as @ r # bs)) row = resultado_da_regra r"
proof -
  from sort_key_frente [of as chave r "\<lambda>a. verificar_regra a row = Inr False" bs, OF assms(2,3)]
  obtain pre pos where e: "sort_key chave (as @ r # bs) = pre @ r # pos"
    and p: "\<forall>p\<in>set pre. verificar_regra p row = Inr False"
    by (elim exE conjE)
  from p assms(1) have "percorrer_regras (pre @ r # pos) row = resultado_da_regra r"
    by (rule percorrer_regras_primeira)
  with e show ?thesis by (simp only:)
qed

text \<open>
  Claim C2. When the JSON array is loaded, every rule has a priority and the rule list of
  the engine is the array sorted by priority, ascending: the same rules, and those of
  equal priority in the order of the array. Consequently a rule of the array whose
  conditions all hold determines the result as soon as the rules that sort before it fail:
  the rules before it in the array of lower or equal priority, and the rules after it of
  strictly lower priority. Any other rule that matches has a higher priority value, or
  the same one and a later place in the array, and does not determine the result.
\<close>

theorem init_motor_ordena_por_prioridade:
  assumes "init_motor (RegrasJson rs) = Inr self"
  shows "(\<forall>r\<in>set rs. prioridade r = Some (chave r)) \<and>
         sorted (map chave (regras self)) \<and>
         mset (regras self) = mset rs \<and>
         (\<forall>k. filter (\<lambda>r. chave r = k) (regras self) = filter (\<lambda>r. chave r = k) rs) \<and>
         (rs = as @ r # bs \<and>
          verificar_regra r row = Inr True \<and>
          (\<forall>a\<in>set as. chave a \<le> chave r \<longrightarrow> verificar_regra a row = Inr False) \<and>
          (\<forall>b\<in>set bs. chave b < chave r \<longrightarrow> verificar_regra b row = Inr False)
          \<longrightarrow> avaliar_alerta self row = resultado_da_regra r)"
proof -
  from assms have todas: "list_all (\<lambda>r. prioridade r \<noteq> None) rs"
    and self: "self = \<lparr>regras = sort_key chave rs\<rparr>"
    by (simp_all only: init_motor_Inr)
  from self have rg: "regras self = sort_key chave rs" by simp
  from todas have c1: "\<forall>r\<in>set rs. prioridade r = Some (chave r)"
    by (auto simp: list_all_iff chave_def)
  have c2: "sorted (map chave (regras self))"
    unfolding rg by (rule sorted_sort_key)
  have c3: "mset (regras self) = mset rs"
    unfolding rg by (rule mset_sort)
  have c4: "\<forall>k. filter (\<lambda>r. chave r = k) (regras self) = filter (\<lambda>r. chave r = k) rs"
    unfolding rg by (simp add: sort_key_stable)
  have c5: "rs = as @ r # bs \<and>
          verificar_regra r row = Inr True \<and>
          (\<forall>a\<in>set as. chave a \<le> chave r \<longrightarrow> verificar_regra a row = Inr False) \<and>
          (\<forall>b\<in>set bs. chave b < chave r \<longrightarrow> verificar_regra b row = Inr False)
          \<longrightarrow> avaliar_alerta self row = resultado_da_regra r"
  proof
    assume h: "rs = as @ r # bs \<and>
          verificar_regra r row = Inr True \<and>
          (\<forall>a\<in>set as. chave a \<le> chave r \<longrightarrow> verificar_regra a row = Inr False) \<and>
          (\<forall>b\<in>set bs. chave b < chave r \<longrightarrow> verificar_regra b row = Inr False)"
    then have "percorrer_regras (sort_key chave (as @ r # bs)) row = resultado_da_regra r"
      by (intro percorrer_regras_ordenadas) blast+
    with h rg show "avaliar_alerta self row = resultado_da_regra r"
      by (simp add: avaliar_alerta_def)
  qed
  from c1 c2 c3 c4 c5 show ?thesis by (intro conjI)
qed

theorem init_motor_ordena_por_prioridade_witness:
  "init_motor (RegrasJson regras_json_exemplo) = Inr motor_exemplo \<and>
   map chave (regras motor_exemplo) = [1, 2, 2, 4] \<and>
   regras motor_exemplo = [regra_critica_01, regra_alta_01, regra_alta_02, regra_baixa_01] \<and>
   verificar_regra regra_alta_01 alerta_varias = Inr True \<and>
   verificar_regra regra_alta_02 alerta_varias = Inr True \<and>
   verificar_regra regra_baixa_01 alerta_varias = Inr True \<and>
   avaliar_alerta motor_exemplo alerta_varias =
     Inr (''ALTO'', ''Enviar vigil'' @ [CHR 0xC3, CHR 0xA2] @ ''ncia.'', ''REGRA_ALTA_01'')"
proof -
  have l: "init_motor (RegrasJson regras_json_exemplo) = Inr motor_exemplo"
    by (simp add: exemplos sort_prioridade_def chave_def)
  from init_motor_ordena_por_prioridade
    [OF l, of "[regra_baixa_01]" regra_alta_01 "[regra_critica_01, regra_alta_02]" alerta_varias]
  show ?thesis
    using l by (simp add: exemplos motor_defs chave_def)
qed

subsection \<open>No rule matches\<close>

lemma percorrer_regras_todas_falham:
  "\<forall>r\<in>set rs. verificar_regra r row = Inr False \<Longrightarrow> percorrer_regras rs row = Inr sem_regra"
  using percorrer_regras_salta [of rs row "[]"] by simp

text \<open>
  Claim C3. When the check of every rule of the engine fails on an alert (the alert
  matches no rule), the tuple returned is the default one: the risk \<^verbatim>\<open>NORMAL\<close>, the
  action of routine monitoring and, in place of a rule identifier, \<^verbatim>\<open>SEM_REGRA\<close>.
\<close>

theorem avaliar_alerta_sem_regra_cumprida:
  "\<forall>r\<in>set (regras self). verificar_regra r row = Inr False \<Longrightarrow>
   avaliar_alerta self row = Inr (''NORMAL'', acao_rotina, ''SEM_REGRA'')"
  by (simp add: avaliar_alerta_def percorrer_regras_todas_falham sem_regra_def)

theorem avaliar_alerta_sem_regra_cumprida_witness:
  "verificar_regra regra_critica_01 alerta_normal = Inr False \<and>
   verificar_regra regra_alta_01 alerta_normal = Inr False \<and>
   verificar_regra regra_alta_02 alerta_normal = Inr False \<and>
   verificar_regra regra_baixa_01 alerta_normal = Inr False \<and>
   avaliar_alerta motor_exemplo alerta_normal =
     Inr (''NORMAL'',
          ''Monitoriza'' @ [CHR 0xC3, CHR 0xA7, CHR 0xC3, CHR 0xA3] @ ''o de rotina.'',
          ''SEM_REGRA'')"
proof -
  have h: "\<forall>r\<in>set (regras motor_exemplo). verificar_regra r alerta_normal = Inr False"
    by (simp add: exemplos motor_defs)
  from avaliar_alerta_sem_regra_cumprida [OF h] h show ?thesis
    by (simp add: motor_exemplo_def acao_rotina_def)
qed

subsection \<open>Comparisons that raise\<close>

lemma verificar_condicao_Inl_iff:
  "verificar_condicao a op b = Inl e \<longleftrightarrow>
   e = TypeError \<and> op \<in> {''>'', ''<'', ''>='', ''<=''} \<and> numerico a \<noteq> numerico b"
  by (cases a; cases b) (auto simp: verificar_condicao_def)

lemma verificar_condicao_strings:
  "verificar_condicao (Str s) ''>'' (Str t) = Inr (str_lt t s)"
  "verificar_condicao (Str s) ''<'' (Str t) = Inr (str_lt s t)"
  "verificar_condicao (Str s) ''>='' (Str t) = Inr (\<not> str_lt s t)"
  "verificar_condicao (Str s) ''<='' (Str t) = Inr (\<not> str_lt t s)"
  by (simp_all add: verificar_condicao_def)

lemma percorrer_regras_erro:
  assumes "\<forall>x\<in>set antes. verificar_regra x row = Inr False"
    and "condicoes r = Some (cs1 @ c # cs2)"
    and "verificar_condicoes cs1 row = Inr True"
    and "avaliar_condicao c row = Inl e"
  shows "percorrer_regras (antes @ r # depois) row = Inl e"
proof -
  from assms(3) have "verificar_condicoes (cs1 @ c # cs2) row = verificar_condicoes (c # cs2) row"
    by (rule verificar_condicoes_prefixo)
  with assms(2,4) have "verificar_regra r row = Inl e"
    by (simp add: verificar_regra_def)
  then have "percorrer_regras (r # depois) row = Inl e" by simp
  moreover from assms(1)
  have "percorrer_regras (antes @ r # depois) row = percorrer_regras (r # depois) row"
    by (rule percorrer_regras_salta)
  ultimately show ?thesis by simp
qed

lemma avaliar_condicao_sem_erro:
  assumes "condicao_completa c" and "comparacao_bem_tipada c row"
  shows "\<exists>b. avaliar_condicao c row = Inr b"
proof -
  from assms(1) obtain v op x where
    c: "variavel c = Some v" "operador c = Some op" "valor c = Some x"
    by (auto simp: condicao_completa_def)
  show ?thesis
  proof (cases "row v")
    case None
    with c have "avaliar_condicao c row = Inr False" by (simp add: avaliar_condicao_def)
    then show ?thesis by (rule exI)
  next
    case (Some a)
    with c assms(2) have "op \<in> {''>'', ''<'', ''>='', ''<=''} \<longrightarrow> numerico a = numerico x"
      by (simp add: comparacao_bem_tipada_def)
    then have "\<forall>e. verificar_condicao a op x \<noteq> Inl e"
      by (simp only: verificar_condicao_Inl_iff) blast
    then obtain b where "verificar_condicao a op x = Inr b"
      by (cases "verificar_condicao a op x") auto
    with c Some have "avaliar_condicao c row = Inr b" by (simp add: avaliar_condicao_def)
    then show ?thesis by (rule exI)
  qed
qed

lemma verificar_condicoes_sem_erro:
  "list_all condicao_completa cs \<Longrightarrow> list_all (\<lambda>c. comparacao_bem_tipada c row) cs \<Longrightarrow>
   \<exists>b. verificar_condicoes cs row = Inr b"
proof (induction cs)
  case Nil
  have "verificar_condicoes [] row = Inr True" by simp
  then show ?case by (rule exI)
next
  case (Cons c cs)
  then obtain b where b: "avaliar_condicao c row = Inr b"
    using avaliar_condicao_sem_erro [of c row] by auto
  from Cons obtain b' where b': "verificar_condicoes cs row = Inr b'" by auto
  from b b' have "verificar_condicoes (c # cs) row = Inr (b \<and> b')" by simp
  then show ?case by (rule exI)
qed

lemma percorrer_regras_sem_erro:
  "list_all regra_completa rs \<Longrightarrow> list_all (\<lambda>r. regra_bem_tipada r row) rs \<Longrightarrow>
   \<exists>res. percorrer_regras rs row = Inr res"
proof (induction rs)
  case Nil
  have "percorrer_regras [] row = Inr sem_regra" by simp
  then show ?case by (rule exI)
next
  case (Cons r rs)
  from Cons.prems obtain cs res ri ac i where
    r: "condicoes r = Some cs" "list_all condicao_completa cs" "resultado r = Some res"
      "risco res = Some ri" "acao res = Some ac" "id_regra r = Some i"
    by (auto simp: regra_completa_def split: option.splits)
  from Cons.prems r have "list_all (\<lambda>c. comparacao_bem_tipada c row) cs"
    by (simp add: regra_bem_tipada_def)
  with r obtain b where b: "verificar_condicoes cs row = Inr b"
    using verificar_condicoes_sem_erro by blast
  from r have p: "resultado_da_regra r = Inr (ri, ac, i)"
    by (intro resultado_da_regra_completo)
  from Cons obtain res' where "percorrer_regras rs row = Inr res'" by auto
  with b p r have "percorrer_regras (r # rs) row = Inr (if b then (ri, ac, i) else res')"
    by (simp add: verificar_regra_def)
  then show ?case by (rule exI)
qed

text \<open>
  Claim C4, as amended. An ordering operator raises exactly when it compares a string
  with a number, and the exception is \<^verbatim>\<open>TypeError\<close>; equality, inequality and an
  operator that is not recognized never raise. Two strings are compared in lexicographic
  order, so that an ordering condition on a string field can hold. A \<^verbatim>\<open>TypeError\<close>
  raised by a condition that the scan reaches leaves \<^verbatim>\<open>avaliar_alerta\<close>: no result is
  returned. A result is returned whenever every rule has all its keys and every ordering
  condition compares a field of the alert with an operand of its own kind.
\<close>

theorem verificar_condicao_erro_de_tipo:
  "(verificar_condicao a op b = Inl e \<longleftrightarrow>
      e = TypeError \<and> op \<in> {''>'', ''<'', ''>='', ''<=''} \<and> numerico a \<noteq> numerico b) \<and>
   verificar_condicao (Str s) ''>'' (Str t) = Inr (str_lt t s) \<and>
   verificar_condicao (Str s) ''<'' (Str t) = Inr (str_lt s t) \<and>
   verificar_condicao (Str s) ''>='' (Str t) = Inr (\<not> str_lt s t) \<and>
   verificar_condicao (Str s) ''<='' (Str t) = Inr (\<not> str_lt t s) \<and>
   (regras self = antes @ r # depois \<and>
    (\<forall>x\<in>set antes. verificar_regra x row = Inr False) \<and>
    condicoes r = Some (cs1 @ c # cs2) \<and>
    verificar_condicoes cs1 row = Inr True \<and>
    avaliar_condicao c row = Inl TypeError
    \<longrightarrow> avaliar_alerta self row = Inl TypeError) \<and>
   (list_all regra_completa (regras self) \<and>
    list_all (\<lambda>r. regra_bem_tipada r row) (regras self)
    \<longrightarrow> (\<exists>res. avaliar_alerta self row = Inr res))"
proof -
  have p: "avaliar_alerta self row = Inl TypeError"
    if h: "regras self = antes @ r # depois \<and>
      (\<forall>x\<in>set antes. verificar_regra x row = Inr False) \<and>
      condicoes r = Some (cs1 @ c # cs2) \<and>
      verificar_condicoes cs1 row = Inr True \<and>
      avaliar_condicao c row = Inl TypeError"
  proof -
    from h have "percorrer_regras (antes @ r # depois) row = Inl TypeError"
      by (intro percorrer_regras_erro [of antes row r cs1 c cs2]) blast+
    with h show ?thesis by (simp add: avaliar_alerta_def)
  qed
  have q: "\<exists>res. avaliar_alerta self row = Inr res"
    if "list_all regra_completa (regras self) \<and>
      list_all (\<lambda>r. regra_bem_tipada r row) (regras self)"
  proof -
    from that have "\<exists>res. percorrer_regras (regras self) row = Inr res"
      by (intro percorrer_regras_sem_erro) simp_all
    then show ?thesis by (simp only: avaliar_alerta_def)
  qed
  from p q show ?thesis
    by (simp only: verificar_condicao_Inl_iff verificar_condicao_strings) blast
qed

theorem verificar_condicao_erro_de_tipo_witness:
  "verificar_condicao (Str ''nenhum'') ''>'' (Num 40) = Inl TypeError \<and>
   verificar_condicao (Str ''raio_seco'') ''>'' (Str ''nenhum'') = Inr True \<and>
   avaliar_alerta \<lparr>regras = [regra_critica_01, regra_evento_maior, regra_baixa_01]\<rparr>
     alerta_quente \<noteq> Inl TypeError \<and>
   avaliar_alerta \<lparr>regras = [regra_critica_01, regra_evento_maior, regra_baixa_01]\<rparr>
     alerta_normal = Inl TypeError \<and>
   (\<exists>res. avaliar_alerta motor_exemplo alerta_normal = Inr res)"
proof -
  have a: "list_all regra_completa (regras motor_exemplo) \<and>
    list_all (\<lambda>r. regra_bem_tipada r alerta_normal) (regras motor_exemplo)"
    by (simp add: exemplos regra_completa_def condicao_completa_def regra_bem_tipada_def
        comparacao_bem_tipada_def)
  have b: "regras \<lparr>regras = [regra_critica_01, regra_evento_maior, regra_baixa_01]\<rparr> =
      [regra_critica_01] @ regra_evento_maior # [regra_baixa_01] \<and>
    (\<forall>x\<in>set [regra_critica_01]. verificar_regra x alerta_normal = Inr False) \<and>
    condicoes regra_evento_maior =
      Some ([] @ \<lparr>variavel = Some ''event_type'', operador = Some ''>'', valor = Some (Num 40)\<rparr> # []) \<and>
    verificar_condicoes [] alerta_normal = Inr True \<and>
    avaliar_condicao \<lparr>variavel = Some ''event_type'', operador = Some ''>'', valor = Some (Num 40)\<rparr>
      alerta_normal = Inl TypeError"
    by (simp add: exemplos motor_defs)
  from verificar_condicao_erro_de_tipo
    [of "Str ''nenhum''" "''>''" "Num 40" TypeError "''raio_seco''" "''nenhum''"
      "\<lparr>regras = [regra_critica_01, regra_evento_maior, regra_baixa_01]\<rparr>"
      "[regra_critica_01]" regra_evento_maior "[regra_baixa_01]" alerta_normal "[]"
      "\<lparr>variavel = Some ''event_type'', operador = Some ''>'', valor = Some (Num 40)\<rparr>" "[]"]
    verificar_condicao_erro_de_tipo [of _ _ _ _ _ _ motor_exemplo _ _ _ alerta_normal]
    a b
  show ?thesis
    by (simp add: exemplos motor_defs)
qed

theorem avaliar_alerta_TypeError_counterexample:
  "avaliar_alerta \<lparr>regras = [regra_evento_maior]\<rparr> alerta_normal = Inl TypeError \<and>
   verificar_condicao (Str ''raio_seco'') ''>'' (Str ''nenhum'') = Inr True"
  by (simp add: exemplos motor_defs)

subsection \<open>A rule file that cannot be read\<close>

text \<open>
  Claim C5, as amended. When the rule file is not found or is not valid JSON, the
  construction succeeds: the engine built holds an empty rule list, the same engine that
  an empty JSON array gives, and the caller receives no error. Such an engine then returns
  \<^verbatim>\<open>None\<close> for every data set.
\<close>

theorem init_motor_ficheiro_em_falta:
  "ficheiro = RegrasNaoEncontrado \<or> ficheiro = RegrasJsonInvalido \<Longrightarrow>
   init_motor ficheiro = Inr \<lparr>regras = []\<rparr> \<and>
   init_motor ficheiro = init_motor (RegrasJson []) \<and>
   processar_dataset \<lparr>regras = []\<rparr> dados = Inr None"
  by (auto simp: sort_prioridade_def processar_dataset_def)

theorem init_motor_ficheiro_em_falta_witness:
  "init_motor RegrasJsonInvalido = init_motor (RegrasJson []) \<and>
   init_motor RegrasNaoEncontrado = init_motor (RegrasJson []) \<and>
   processar_dataset \<lparr>regras = []\<rparr> (CsvTabela [alerta_quente]) = Inr None"
  using init_motor_ficheiro_em_falta [of RegrasJsonInvalido "CsvTabela [alerta_quente]"]
    init_motor_ficheiro_em_falta [of RegrasNaoEncontrado "CsvTabela [alerta_quente]"]
  by simp

theorem init_motor_ficheiro_em_falta_counterexample:
  "init_motor RegrasNaoEncontrado = Inr \<lparr>regras = []\<rparr> \<and>
   init_motor RegrasJsonInvalido = Inr \<lparr>regras = []\<rparr>"
  by simp

subsection \<open>Rules that are not valid\<close>

text \<open>
  Claim C6, as amended. Loading validates nothing and knows no error for an invalid rule.
  A JSON array is accepted, with all its rules, as soon as every rule has a priority,
  whatever else is missing or unrecognized; a rule without a priority makes the
  construction fail with the \<^verbatim>\<open>KeyError\<close> of the sort. The rest shows at evaluation
  only: a condition with an operator that is not recognized fails, and a condition that is
  reached and lacks its operator or its operand raises \<^verbatim>\<open>KeyError\<close>.
\<close>

theorem init_motor_nao_valida_regras:
  "(list_all (\<lambda>r. prioridade r \<noteq> None) rs
    \<longrightarrow> (\<exists>self. init_motor (RegrasJson rs) = Inr self \<and> mset (regras self) = mset rs)) \<and>
   (\<not> list_all (\<lambda>r. prioridade r \<noteq> None) rs
    \<longrightarrow> init_motor (RegrasJson rs) = Inl KeyError) \<and>
   (op \<notin> {''>'', ''<'', ''=='', ''!='', ''>='', ''<=''}
    \<longrightarrow> verificar_condicao a op b = Inr False) \<and>
   (variavel c = Some v \<and> row v = Some a \<and> (operador c = None \<or> valor c = None)
    \<longrightarrow> avaliar_condicao c row = Inl KeyError)"
proof (intro conjI impI)
  assume "list_all (\<lambda>r. prioridade r \<noteq> None) rs"
  then have "init_motor (RegrasJson rs) = Inr \<lparr>regras = sort_key chave rs\<rparr> \<and>
      mset (regras \<lparr>regras = sort_key chave rs\<rparr>) = mset rs"
    by (simp add: sort_prioridade_def)
  then show "\<exists>self. init_motor (RegrasJson rs) = Inr self \<and> mset (regras self) = mset rs"
    by (rule exI)
next
  assume "\<not> list_all (\<lambda>r. prioridade r \<noteq> None) rs"
  then show "init_motor (RegrasJson rs) = Inl KeyError"
    by (simp add: sort_prioridade_def)
next
  assume "op \<notin> {''>'', ''<'', ''=='', ''!='', ''>='', ''<=''}"
  then show "verificar_condicao a op b = Inr False"
    by (simp add: verificar_condicao_def)
next
  assume "variavel c = Some v \<and> row v = Some a \<and> (operador c = None \<or> valor c = None)"
  then show "avaliar_condicao c row = Inl KeyError"
    by (auto simp: avaliar_condicao_def split: option.splits)
qed

theorem init_motor_nao_valida_regras_witness:
  "init_motor (RegrasJson [regra_sem_operador, regra_operador_desconhecido]) =
     Inr \<lparr>regras = [regra_operador_desconhecido, regra_sem_operador]\<rparr> \<and>
   init_motor (RegrasJson [regra_baixa_01, regra_sem_prioridade]) = Inl KeyError \<and>
   verificar_condicao (Num 42) ''~='' (Num 40) = Inr False \<and>
   avaliar_alerta \<lparr>regras = [regra_operador_desconhecido, regra_sem_operador]\<rparr> alerta_quente =
     Inl KeyError"
  using init_motor_nao_valida_regras
    [of "[regra_sem_operador, regra_operador_desconhecido]" "''~=''" "Num 42" "Num 40"
      "\<lparr>variavel = Some ''temp'', operador = None, valor = Some (Num 40)\<rparr>" "''temp''"
      alerta_quente]
    init_motor_nao_valida_regras [of "[regra_baixa_01, regra_sem_prioridade]"]
  by (simp add: exemplos motor_defs sort_prioridade_def chave_def)

theorem init_motor_nao_valida_regras_counterexample:
  "init_motor (RegrasJson [regra_operador_desconhecido]) =
     Inr \<lparr>regras = [regra_operador_desconhecido]\<rparr> \<and>
   init_motor (RegrasJson [regra_sem_operador]) = Inr \<lparr>regras = [regra_sem_operador]\<rparr>"
  by (simp add: exemplos sort_prioridade_def)

subsection \<open>A field that the alert does not have\<close>

lemma avaliar_condicao_campo_ausente:
  "variavel c = Some v \<Longrightarrow> row v = None \<Longrightarrow> avaliar_condicao c row = Inr False"
  by (simp add: avaliar_condicao_def)

lemma verificar_condicoes_com_falha:
  "avaliar_condicao c row = Inr False \<Longrightarrow> c \<in> set cs \<Longrightarrow> verificar_condicoes cs row \<noteq> Inr True"
proof
  assume "avaliar_condicao c row = Inr False" and "c \<in> set cs"
    and "verificar_condicoes cs row = Inr True"
  then have "avaliar_condicao c row = Inr True" by (simp add: verificar_condicoes_todas)
  with \<open>avaliar_condicao c row = Inr False\<close> show False by simp
qed

lemma verificar_condicoes_falha_depois:
  "verificar_condicoes cs1 row = Inr b \<Longrightarrow> avaliar_condicao c row = Inr False \<Longrightarrow>
   verificar_condicoes (cs1 @ c # cs2) row = Inr False"
  by (cases b) (simp_all add: verificar_condicoes_primeira_falha verificar_condicoes_prefixo_falha)

text \<open>
  Claim C7. A condition on a field that the alert does not have fails, without an error
  (even when the condition lacks its operator or operand). A rule that contains such a
  condition never matches; when the conditions before it do not raise, the check of the
  rule fails, and when moreover the rules before it fail, the result is the one that the
  rules after it give: the default or the result of a later rule.
\<close>

theorem condicao_de_campo_ausente_falha:
  assumes "variavel c = Some v" and "row v = None"
  shows "avaliar_condicao c row = Inr False \<and>
         verificar_condicoes (cs1 @ c # cs2) row \<noteq> Inr True \<and>
         (verificar_condicoes cs1 row = Inr b
          \<longrightarrow> verificar_condicoes (cs1 @ c # cs2) row = Inr False) \<and>
         (verificar_condicoes cs1 row = Inr b \<and> condicoes r = Some (cs1 @ c # cs2) \<and>
          regras self = antes @ r # depois \<and>
          (\<forall>a\<in>set antes. verificar_regra a row = Inr False)
          \<longrightarrow> verificar_regra r row = Inr False \<and>
              avaliar_alerta self row = avaliar_alerta \<lparr>regras = depois\<rparr> row)"
proof -
  from assms have f: "avaliar_condicao c row = Inr False"
    by (rule avaliar_condicao_campo_ausente)
  have n: "verificar_condicoes (cs1 @ c # cs2) row \<noteq> Inr True"
    using f by (rule verificar_condicoes_com_falha) simp
  have p: "verificar_condicoes (cs1 @ c # cs2) row = Inr False"
    if "verificar_condicoes cs1 row = Inr b"
    using that f by (rule verificar_condicoes_falha_depois)
  have q: "verificar_regra r row = Inr False \<and>
      avaliar_alerta self row = avaliar_alerta \<lparr>regras = depois\<rparr> row"
    if h: "verificar_condicoes cs1 row = Inr b \<and> condicoes r = Some (cs1 @ c # cs2) \<and>
          regras self = antes @ r # depois \<and>
          (\<forall>a\<in>set antes. verificar_regra a row = Inr False)"
  proof -
    from h have r: "verificar_regra r row = Inr False"
      by (simp add: verificar_regra_def p)
    from h have "\<forall>a\<in>set (antes @ [r]). verificar_regra a row = Inr False"
      using r by simp
    then have "percorrer_regras ((antes @ [r]) @ depois) row = percorrer_regras depois row"
      by (rule percorrer_regras_salta)
    with h r show ?thesis by (simp add: avaliar_alerta_def)
  qed
  from f n p q show ?thesis by blast
qed

theorem condicao_de_campo_ausente_falha_witness:
  "avaliar_condicao \<lparr>variavel = Some ''hum'', operador = Some ''<'', valor = Some (Num 20)\<rparr>
     alerta_sem_hum = Inr False \<and>
   verificar_regra regra_critica_01 alerta_sem_hum = Inr False \<and>
   avaliar_alerta motor_exemplo alerta_sem_hum = Inr (''BAIXO'', ''Monitorizar.'', ''REGRA_BAIXA_01'')"
proof -
  have h: "variavel \<lparr>variavel = Some ''hum'', operador = Some ''<'', valor = Some (Num 20)\<rparr>
      = Some ''hum''" "alerta_sem_hum ''hum'' = None"
    by (simp_all add: alerta_sem_hum_def)
  from condicao_de_campo_ausente_falha
    [of "\<lparr>variavel = Some ''hum'', operador = Some ''<'', valor = Some (Num 20)\<rparr>" "''hum''"
      alerta_sem_hum
      "[\<lparr>variavel = Some ''temp'', operador = Some ''>'', valor = Some (Num 40)\<rparr>]" "[]"
      True regra_critica_01 motor_exemplo "[]" "[regra_alta_01, regra_alta_02, regra_baixa_01]",
      OF h]
  show ?thesis
    by (simp add: exemplos motor_defs)
qed

subsection \<open>A rule without conditions\<close>

text \<open>
  Claim C8. A rule with an empty list of conditions matches every alert; when the scan
  reaches it (the rules before it fail) its risk, action and identifier are returned.
\<close>

theorem regra_sem_condicoes_cumpre_sempre:
  assumes "condicoes r = Some []"
  shows "verificar_regra r row = Inr True \<and>
         (regras self = antes @ r # depois \<and>
          (\<forall>a\<in>set antes. verificar_regra a row = Inr False) \<and>
          resultado r = Some res \<and> risco res = Some ri \<and> acao res = Some ac \<and>
          id_regra r = Some i
          \<longrightarrow> avaliar_alerta self row = Inr (ri, ac, i))"
proof -
  from assms have v: "verificar_regra r row = Inr True"
    by (simp add: verificar_regra_def)
  have "avaliar_alerta self row = Inr (ri, ac, i)"
    if h: "regras self = antes @ r # depois \<and>
          (\<forall>a\<in>set antes. verificar_regra a row = Inr False) \<and>
          resultado r = Some res \<and> risco res = Some ri \<and> acao res = Some ac \<and>
          id_regra r = Some i"
  proof -
    from h have a: "\<forall>a\<in>set antes. verificar_regra a row = Inr False"
      and d: "resultado r = Some res" "risco res = Some ri" "acao res = Some ac"
        "id_regra r = Some i"
      and c: "regras self = antes @ r # depois"
      by blast+
    from a v have "percorrer_regras (antes @ r # depois) row = resultado_da_regra r"
      by (rule percorrer_regras_primeira)
    moreover from d have "resultado_da_regra r = Inr (ri, ac, i)"
      by (rule resultado_da_regra_completo)
    ultimately show ?thesis using c by (simp add: avaliar_alerta_def)
  qed
  with v show ?thesis by blast
qed

theorem regra_sem_condicoes_cumpre_sempre_witness:
  "verificar_regra regra_sempre alerta_normal = Inr True \<and>
   avaliar_alerta \<lparr>regras = [regra_critica_01, regra_sempre, regra_baixa_01]\<rparr> alerta_normal =
     Inr (''BAIXO'', ''Monitorizar.'', ''REGRA_SEMPRE'') \<and>
   avaliar_alerta \<lparr>regras = [regra_critica_01, regra_sempre, regra_baixa_01]\<rparr> alerta_quente =
     Inr (''CR'' @ [CHR 0xC3, CHR 0x8D] @ ''TICO'',
          ''Mobiliza'' @ [CHR 0xC3, CHR 0xA7, CHR 0xC3, CHR 0xA3] @ ''o imediata.'',
          ''REGRA_CRITICA_01'')"
proof -
  have h: "condicoes regra_sempre = Some []" by (simp add: regra_sempre_def)
  from regra_sem_condicoes_cumpre_sempre [OF h,
      of alerta_normal "\<lparr>regras = [regra_critica_01, regra_sempre, regra_baixa_01]\<rparr>"
        "[regra_critica_01]" "[regra_baixa_01]"
        "\<lparr>risco = Some ''BAIXO'', acao = Some ''Monitorizar.''\<rparr>"
        "''BAIXO''" "''Monitorizar.''" "''REGRA_SEMPRE''"]
  show ?thesis
    by (simp add: exemplos motor_defs)
qed

subsection \<open>One result per row\<close>

lemma aplicar_Inr_iff:
  "aplicar self df = Inr rs \<longleftrightarrow> map (avaliar_alerta self) df = map Inr rs"
proof (induction df arbitrary: rs)
  case Nil
  show ?case by auto
next
  case (Cons row df)
  show ?case
  proof (cases rs)
    case Nil
    then show ?thesis by (simp split: sum.splits)
  next
    case (Cons x xs)
    with Cons.IH [of xs] show ?thesis by (auto split: sum.splits)
  qed
qed

lemma aplicar_Inl_iff:
  "(\<exists>e. aplicar self df = Inl e) \<longleftrightarrow> (\<exists>row\<in>set df. \<exists>e. avaliar_alerta self row = Inl e)"
  by (induction df) (auto split: sum.splits)

lemma processar_dataset_tabela:
  "regras self \<noteq> [] \<Longrightarrow>
   processar_dataset self (CsvTabela df) =
     (case aplicar self df of Inl e \<Rightarrow> Inl e | Inr rs \<Rightarrow> Inr (Some (zip df rs)))"
  by (simp add: processar_dataset_def)

lemma saida_iff:
  "(\<exists>rs. map f df = map Inr rs \<and> saida = zip df rs) \<longleftrightarrow>
   length saida = length df \<and> (\<forall>i<length df. fst (saida ! i) = df ! i \<and> f (df ! i) = Inr (snd (saida ! i)))"
  (is "?l \<longleftrightarrow> ?r")
proof
  assume ?l
  then obtain rs where m: "map f df = map Inr rs" and s: "saida = zip df rs" by blast
  from m have len: "length rs = length df" by (metis length_map)
  have "f (df ! i) = Inr (rs ! i)" if "i < length df" for i
  proof -
    from that have "f (df ! i) = map f df ! i" by simp
    also have "\<dots> = map Inr rs ! i" by (simp only: m)
    also from that len have "\<dots> = Inr (rs ! i)" by simp
    finally show ?thesis .
  qed
  with s len show ?r by simp
next
  assume r: ?r
  then have len: "length saida = length df" by simp
  have a: "map f df = map Inr (map snd saida)"
    using r by (intro nth_equalityI) simp_all
  have "map fst saida = df"
    using r by (intro nth_equalityI) simp_all
  then have "zip df (map snd saida) = saida"
    using zip_map_fst_snd [of saida] by simp
  with a show ?l by metis
qed

text \<open>
  Claim C9, as amended. For an engine with at least one rule and a frame with at least one
  row, \<^verbatim>\<open>processar_dataset\<close> returns a frame exactly when the evaluation of every row
  returns, and that frame has one entry per row, in the order of the rows: the row and the
  tuple that \<^verbatim>\<open>avaliar_alerta\<close> returns for it. When the evaluation of some row raises,
  the exception leaves \<^verbatim>\<open>processar_dataset\<close> and no frame is returned. (An engine with
  no rules returns \<^verbatim>\<open>None\<close>, see C10; pandas does not call the function on a frame
  without rows, a case that is left out.)
\<close>

theorem processar_dataset_um_resultado_por_linha:
  assumes "regras self \<noteq> []" and "df \<noteq> []"
  shows "(processar_dataset self (CsvTabela df) = Inr (Some saida) \<longleftrightarrow>
            length saida = length df \<and>
            (\<forall>i<length df. fst (saida ! i) = df ! i \<and>
                            avaliar_alerta self (df ! i) = Inr (snd (saida ! i)))) \<and>
         ((\<forall>row\<in>set df. \<exists>res. avaliar_alerta self row = Inr res)
          \<longrightarrow> (\<exists>s. processar_dataset self (CsvTabela df) = Inr (Some s))) \<and>
         ((\<exists>row\<in>set df. \<exists>e. avaliar_alerta self row = Inl e)
          \<longrightarrow> (\<exists>e. processar_dataset self (CsvTabela df) = Inl e))"
proof -
  note p = processar_dataset_tabela [OF assms(1), of df]
  have "processar_dataset self (CsvTabela df) = Inr (Some saida) \<longleftrightarrow>
      (\<exists>rs. aplicar self df = Inr rs \<and> saida = zip df rs)"
    unfolding p by (cases "aplicar self df") auto
  then have a: "processar_dataset self (CsvTabela df) = Inr (Some saida) \<longleftrightarrow>
      length saida = length df \<and>
      (\<forall>i<length df. fst (saida ! i) = df ! i \<and>
                      avaliar_alerta self (df ! i) = Inr (snd (saida ! i)))"
    by (simp only: aplicar_Inr_iff saida_iff)
  have c: "\<exists>e. processar_dataset self (CsvTabela df) = Inl e"
    if "\<exists>row\<in>set df. \<exists>e. avaliar_alerta self row = Inl e"
  proof -
    from that obtain e where "aplicar self df = Inl e"
      using aplicar_Inl_iff [of self df] by blast
    then have "processar_dataset self (CsvTabela df) = Inl e" unfolding p by simp
    then show ?thesis by (rule exI)
  qed
  have b: "\<exists>s. processar_dataset self (CsvTabela df) = Inr (Some s)"
    if h: "\<forall>row\<in>set df. \<exists>res. avaliar_alerta self row = Inr res"
  proof (cases "aplicar self df")
    case (Inl e)
    then have "\<exists>row\<in>set df. \<exists>e. avaliar_alerta self row = Inl e"
      using aplicar_Inl_iff [of self df] by blast
    with h show ?thesis by force
  next
    case (Inr rs)
    then have "processar_dataset self (CsvTabela df) = Inr (Some (zip df rs))"
      unfolding p by simp
    then show ?thesis by (rule exI)
  qed
  from a b c show ?thesis by blast
qed

theorem processar_dataset_um_resultado_por_linha_witness:
  "processar_dataset motor_exemplo (CsvTabela [alerta_raio, alerta_normal, alerta_quente]) =
     Inr (Some
       [(alerta_raio, ''ALTO'', ''Enviar vigil'' @ [CHR 0xC3, CHR 0xA2] @ ''ncia.'',
           ''REGRA_ALTA_01''),
        (alerta_normal, ''NORMAL'', acao_rotina, ''SEM_REGRA''),
        (alerta_quente, ''CR'' @ [CHR 0xC3, CHR 0x8D] @ ''TICO'',
           ''Mobiliza'' @ [CHR 0xC3, CHR 0xA7, CHR 0xC3, CHR 0xA3] @ ''o imediata.'',
           ''REGRA_CRITICA_01'')]) \<and>
   (\<exists>e. processar_dataset
      \<lparr>regras = [regra_critica_01, regra_evento_maior]\<rparr>
      (CsvTabela [alerta_quente, alerta_normal, alerta_raio]) = Inl e)"
proof -
  have a: "regras motor_exemplo \<noteq> []" "[alerta_raio, alerta_normal, alerta_quente] \<noteq> []"
    by (simp_all add: motor_exemplo_def)
  have b: "regras \<lparr>regras = [regra_critica_01, regra_evento_maior]\<rparr> \<noteq> []"
    "[alerta_quente, alerta_normal, alerta_raio] \<noteq> []"
    by simp_all
  have c: "avaliar_alerta motor_exemplo alerta_raio =
      Inr (''ALTO'', ''Enviar vigil'' @ [CHR 0xC3, CHR 0xA2] @ ''ncia.'', ''REGRA_ALTA_01'')"
    "avaliar_alerta motor_exemplo alerta_normal = Inr (''NORMAL'', acao_rotina, ''SEM_REGRA'')"
    "avaliar_alerta motor_exemplo alerta_quente =
      Inr (''CR'' @ [CHR 0xC3, CHR 0x8D] @ ''TICO'',
           ''Mobiliza'' @ [CHR 0xC3, CHR 0xA7, CHR 0xC3, CHR 0xA3] @ ''o imediata.'',
           ''REGRA_CRITICA_01'')"
    by (simp_all add: exemplos motor_defs)
  have d: "avaliar_alerta \<lparr>regras = [regra_critica_01, regra_evento_maior]\<rparr> alerta_normal =
      Inl TypeError"
    by (simp add: exemplos motor_defs)
  let ?saida = "[(alerta_raio, ''ALTO'', ''Enviar vigil'' @ [CHR 0xC3, CHR 0xA2] @ ''ncia.'',
           ''REGRA_ALTA_01''),
        (alerta_normal, ''NORMAL'', acao_rotina, ''SEM_REGRA''),
        (alerta_quente, ''CR'' @ [CHR 0xC3, CHR 0x8D] @ ''TICO'',
           ''Mobiliza'' @ [CHR 0xC3, CHR 0xA7, CHR 0xC3, CHR 0xA3] @ ''o imediata.'',
           ''REGRA_CRITICA_01'')]"
  have h: "length ?saida = length [alerta_raio, alerta_normal, alerta_quente] \<and>
      (\<forall>i<length [alerta_raio, alerta_normal, alerta_quente].
         fst (?saida ! i) = [alerta_raio, alerta_normal, alerta_quente] ! i \<and>
         avaliar_alerta motor_exemplo ([alerta_raio, alerta_normal, alerta_quente] ! i) =
           Inr (snd (?saida ! i)))"
    using c by (simp add: All_less_Suc)
  from processar_dataset_um_resultado_por_linha [OF a, of ?saida] h
  have "processar_dataset motor_exemplo (CsvTabela [alerta_raio, alerta_normal, alerta_quente]) =
     Inr (Some ?saida)"
    by blast
  moreover from processar_dataset_um_resultado_por_linha [OF b] d
  have "\<exists>e. processar_dataset
      \<lparr>regras = [regra_critica_01, regra_evento_maior]\<rparr>
      (CsvTabela [alerta_quente, alerta_normal, alerta_raio]) = Inl e"
    by simp
  ultimately show ?thesis by (rule conjI)
qed

theorem processar_dataset_sem_regras_counterexample:
  "init_motor (RegrasJson []) = Inr \<lparr>regras = []\<rparr> \<and>
   avaliar_alerta \<lparr>regras = []\<rparr> alerta_quente = Inr (''NORMAL'', acao_rotina, ''SEM_REGRA'') \<and>
   processar_dataset \<lparr>regras = []\<rparr> (CsvTabela [alerta_quente]) = Inr None"
  by (simp add: sort_prioridade_def processar_dataset_def avaliar_alerta_def sem_regra_def)

subsection \<open>No frame is returned\<close>

text \<open>
  Claim C10. An engine without rules returns \<^verbatim>\<open>None\<close> for every data set, although
  evaluating any single alert with it gives the default result; and every engine returns
  \<^verbatim>\<open>None\<close> when the data set file is missing or cannot be read.
\<close>

theorem processar_dataset_devolve_None:
  "(regras self = []
    \<longrightarrow> processar_dataset self ficheiro = Inr None \<and>
        avaliar_alerta self row = Inr (''NORMAL'', acao_rotina, ''SEM_REGRA'')) \<and>
   processar_dataset self CsvNaoEncontrado = Inr None \<and>
   processar_dataset self CsvErroLeitura = Inr None"
  by (simp add: processar_dataset_def avaliar_alerta_def sem_regra_def)

theorem processar_dataset_devolve_None_witness:
  "processar_dataset \<lparr>regras = []\<rparr> (CsvTabela [alerta_normal, alerta_quente]) = Inr None \<and>
   avaliar_alerta \<lparr>regras = []\<rparr> alerta_quente = Inr (''NORMAL'', acao_rotina, ''SEM_REGRA'') \<and>
   processar_dataset motor_exemplo CsvNaoEncontrado = Inr None \<and>
   processar_dataset motor_exemplo CsvErroLeitura = Inr None"
  using processar_dataset_devolve_None
    [of "\<lparr>regras = []\<rparr>" "CsvTabela [alerta_normal, alerta_quente]" alerta_quente]
    processar_dataset_devolve_None [of motor_exemplo]
  by simp

end
